theory Spec2Isabelle
  imports Main "HOL-Library.Word" "HOL-Library.Signed_Division"
begin

unbundle bit_operations_syntax

section \<open>Machine integers of \<open>core/utctime_utilities.h\<close>\<close>

text \<open>
  \<open>utctime\<close> and \<open>utctimespan\<close> are \<open>std::chrono\<close> values over a signed 64-bit count of
  microseconds; C++ \<open>int\<close> is a signed 32-bit value. Both are words here: \<open>+\<close>, \<open>-\<close> and
  \<open>*\<close> wrap around, the order of the source is the signed one (\<open>\<le>s\<close>, \<open><s\<close>), and \<open>sint\<close>
  reads the two's complement value. The \<open>/\<close> and \<open>%\<close> of C++ truncate towards zero:
  \<open>sdiv\<close> and \<open>smod\<close> on the signed values, written back into the word.
\<close>

type_synonym int64_t = "64 word"
type_synonym cint = "32 word"
type_synonym utctimespan = "64 word"
type_synonym utctime = "64 word"

definition div64 :: "int64_t \<Rightarrow> int64_t \<Rightarrow> int64_t" where
  "div64 a b = word_of_int (sint a sdiv sint b)"

definition rem64 :: "int64_t \<Rightarrow> int64_t \<Rightarrow> int64_t" where
  "rem64 a b = word_of_int (sint a smod sint b)"

text \<open>\<open>std::max\<close> and \<open>std::min\<close> on instants, as the standard library writes them with \<open><\<close>.\<close>

definition max_t :: "utctime \<Rightarrow> utctime \<Rightarrow> utctime" where
  "max_t a b = (if a <s b then b else a)"

definition min_t :: "utctime \<Rightarrow> utctime \<Rightarrow> utctime" where
  "min_t a b = (if b <s a then b else a)"

section \<open>Instants and their sentinels\<close>

text \<open>\<open>utctime::max()\<close> and \<open>utctime::min()\<close> hold the largest and the smallest 64-bit count.\<close>

definition utctime_max :: utctime where
  "utctime_max = 9223372036854775807"

definition utctime_min :: utctime where
  "utctime_min = - 9223372036854775808"

definition max_utctime :: utctime where
  "max_utctime = utctime_max"

text \<open>\<open>utctime(- utctime::min().time_since_epoch())\<close>: the negation of the smallest count.\<close>

definition min_utctime :: utctime where
  "min_utctime = - utctime_min"

definition no_utctime :: utctime where
  "no_utctime = utctime_min"

definition is_valid :: "utctime \<Rightarrow> bool" where
  "is_valid t = (t \<noteq> no_utctime)"

definition deltahours :: "cint \<Rightarrow> utctimespan" where
  "deltahours h = scast h * 3600000000"

definition deltaminutes :: "cint \<Rightarrow> utctimespan" where
  "deltaminutes m = scast m * 60000000"

section \<open>floor\<close>

definition floor :: "utctime \<Rightarrow> utctimespan \<Rightarrow> utctime" where
  "floor t dt =
     (let den = dt in
      if den = 0 then t
      else let num = t in
        if 0 <s (num XOR den) then den * div64 num den
        else let quot = div64 num den; rem = rem64 num den in
          if rem \<noteq> 0 then den * (quot - 1) else den * quot)"

section \<open>Periods\<close>

record utcperiod =
  start :: utctime
  end_t :: utctime

definition utcperiod_default :: utcperiod where
  "utcperiod_default = \<lparr>start = no_utctime, end_t = no_utctime\<rparr>"

definition valid :: "utcperiod \<Rightarrow> bool" where
  "valid p = (start p \<noteq> no_utctime \<and> end_t p \<noteq> no_utctime \<and> start p \<le>s end_t p)"

definition contains :: "utcperiod \<Rightarrow> utctime \<Rightarrow> bool" where
  "contains p t = (if is_valid t \<and> valid p then start p \<le>s t \<and> t <s end_t p else False)"

definition overlaps :: "utcperiod \<Rightarrow> utcperiod \<Rightarrow> bool" where
  "overlaps a p = (if end_t a \<le>s start p \<or> end_t p \<le>s start a then False else True)"

definition intersection :: "utcperiod \<Rightarrow> utcperiod \<Rightarrow> utcperiod" where
  "intersection a b =
     (let t0 = max_t (start a) (start b);
          t1 = min_t (end_t a) (end_t b)
      in if t0 \<le>s t1 then \<lparr>start = t0, end_t = t1\<rparr> else utcperiod_default)"

section \<open>Failures\<close>

text \<open>
  A \<open>throw std::runtime_error(msg)\<close> is the value \<open>runtime_error msg\<close>. Reading a
  \<open>std::vector\<close> with \<open>operator[]\<close> at an index that is not below its size has no defined
  result in C++; the model makes it the value \<open>out_of_bounds\<close>.
\<close>

datatype fault = runtime_error string | out_of_bounds

text \<open>
  \<open>v[i]\<close> for an \<open>int\<close> index: the index is converted to \<open>size_t\<close> (sign-extended to 64
  bits and read unsigned), so a negative one becomes a huge one.
\<close>

definition vector_at :: "'a list \<Rightarrow> cint \<Rightarrow> fault + 'a" where
  "vector_at v i =
     (let n = uint (scast i :: 64 word)
      in if n < int (length v) then Inr (v ! nat n) else Inl out_of_bounds)"

section \<open>Calendar coordinates\<close>

record YMDhms =
  year :: cint
  month :: cint
  day :: cint
  hour :: cint
  minute :: cint
  second :: cint

definition YEAR_MAX :: cint where
  "YEAR_MAX = 9999"

definition YEAR_MIN :: cint where
  "YEAR_MIN = - 9999"

definition YMDhms_is_valid_coordinates :: "YMDhms \<Rightarrow> bool" where
  "YMDhms_is_valid_coordinates c =
     (\<not> (year c <s YEAR_MIN \<or> YEAR_MAX <s year c \<or> month c <s 1 \<or> 12 <s month c
         \<or> day c <s 1 \<or> 31 <s day c \<or> hour c <s 0 \<or> 23 <s hour c
         \<or> minute c <s 0 \<or> 59 <s minute c \<or> second c <s 0 \<or> 59 <s second c))"

definition YMDhms_is_null :: "YMDhms \<Rightarrow> bool" where
  "YMDhms_is_null c =
     (year c = 0 \<and> month c = 0 \<and> day c = 0 \<and> hour c = 0 \<and> minute c = 0 \<and> second c = 0)"

definition YMDhms_is_valid :: "YMDhms \<Rightarrow> bool" where
  "YMDhms_is_valid c = (YMDhms_is_null c \<or> YMDhms_is_valid_coordinates c)"

text \<open>The constructor \<open>YMDhms(Y, M, D, h, m, s)\<close>: it stores the fields, then checks them.\<close>

definition YMDhms_new :: "cint \<Rightarrow> cint \<Rightarrow> cint \<Rightarrow> cint \<Rightarrow> cint \<Rightarrow> cint \<Rightarrow> fault + YMDhms" where
  "YMDhms_new Y M D h m s =
     (let c = \<lparr>year = Y, month = M, day = D, hour = h, minute = m, second = s\<rparr>
      in if \<not> YMDhms_is_valid c
         then Inl (runtime_error ''calendar coordinates failed simple range check for one or more item'')
         else Inr c)"

record YWdhms =
  iso_year :: cint
  iso_week :: cint
  week_day :: cint
  w_hour :: cint
  w_minute :: cint
  w_second :: cint

definition YWdhms_is_null :: "YWdhms \<Rightarrow> bool" where
  "YWdhms_is_null c =
     (iso_year c = 0 \<and> iso_week c = 0 \<and> week_day c = 0 \<and> w_hour c = 0 \<and> w_minute c = 0
      \<and> w_second c = 0)"

definition YWdhms_is_valid_coordinates :: "YWdhms \<Rightarrow> bool" where
  "YWdhms_is_valid_coordinates c =
     (\<not> (iso_year c <s YEAR_MIN \<or> YEAR_MAX <s iso_year c \<or> iso_week c <s 1 \<or> 53 <s iso_week c
         \<or> week_day c <s 1 \<or> 7 <s week_day c \<or> w_hour c <s 0 \<or> 23 <s w_hour c
         \<or> w_minute c <s 0 \<or> 59 <s w_minute c \<or> w_second c <s 0 \<or> 59 <s w_second c))"

definition YWdhms_is_valid :: "YWdhms \<Rightarrow> bool" where
  "YWdhms_is_valid c = (YWdhms_is_null c \<or> YWdhms_is_valid_coordinates c)"

definition YWdhms_new :: "cint \<Rightarrow> cint \<Rightarrow> cint \<Rightarrow> cint \<Rightarrow> cint \<Rightarrow> cint \<Rightarrow> fault + YWdhms" where
  "YWdhms_new Y W wd h m s =
     (let c = \<lparr>iso_year = Y, iso_week = W, week_day = wd, w_hour = h, w_minute = m, w_second = s\<rparr>
      in if \<not> YWdhms_is_valid c
         then Inl (runtime_error ''calendar iso week coordinates failed simple range check for one or more item'')
         else Inr c)"

section \<open>Calendar: day numbers and the UTC year\<close>

text \<open>
  Modelled from the spec: the constants \<open>calendar::UnixDay\<close>, \<open>calendar::UnixSecond\<close> and
  \<open>calendar::DAY\<close> are declared in the header and defined elsewhere. The spec gives
  \<open>UnixDay = 2440588\<close>, \<open>UnixSecond = UnixDay \<cdot> 86400 = 210866803200\<close> and
  \<open>DAY = 24 \<cdot> 60 \<cdot> 60 \<cdot> 10\<^sup>6\<close> microseconds.
\<close>

definition UnixDay :: int64_t where
  "UnixDay = 2440588"

definition UnixSecond :: int64_t where
  "UnixSecond = 210866803200"

definition DAY :: utctimespan where
  "DAY = 86400000000"

text \<open>\<open>std::chrono::duration_cast<std::chrono::seconds>(d).count()\<close>: the count divided by
  \<open>10\<^sup>6\<close> with the \<open>/\<close> of C++.\<close>

definition duration_cast_seconds :: "utctimespan \<Rightarrow> int64_t" where
  "duration_cast_seconds d = div64 d 1000000"

definition day_number :: "utctime \<Rightarrow> int64_t" where
  "day_number t = div64 (UnixSecond + duration_cast_seconds t) (duration_cast_seconds DAY)"

text \<open>The sentence of the spec about \<open>day_number\<close>, on the integers, where \<open>div\<close> rounds
  towards minus infinity.\<close>

definition day_number_spec :: "utctime \<Rightarrow> int" where
  "day_number_spec t = (sint UnixSecond + sint t div 1000000) div 86400"

text \<open>
  \<open>calendar::from_day_number\<close> is declared in the header and defined elsewhere, so
  \<open>utc_year\<close> takes it as the parameter \<open>fdn\<close>; its argument is the \<open>unsigned long\<close> that
  the day number converts to.
\<close>

definition utc_year :: "(64 word \<Rightarrow> fault + YMDhms) \<Rightarrow> utctime \<Rightarrow> fault + cint" where
  "utc_year fdn t =
     (if t = no_utctime then Inl (runtime_error ''year of no_utctime'')
      else if t = max_utctime then Inr YEAR_MAX
      else if t = min_utctime then Inr YEAR_MIN
      else case fdn (day_number t) of Inl e \<Rightarrow> Inl e | Inr c \<Rightarrow> Inr (year c))"

text \<open>
  Modelled from the spec: \<open>calendar::from_day_number\<close>, which the spec describes as the
  standard textbook inversion of the Gregorian serial day number; the result is built by the
  \<open>YMDhms\<close> constructor with the time of day left at zero.
\<close>

definition from_day_number :: "64 word \<Rightarrow> fault + YMDhms" where
  "from_day_number dayNumber =
     (let a = uint dayNumber + 32044;
          b = (4 * a + 3) div 146097;
          c = a - (146097 * b) div 4;
          d = (4 * c + 3) div 1461;
          e = c - (1461 * d) div 4;
          m = (5 * e + 2) div 153
      in YMDhms_new (word_of_int (100 * b + d - 4800 + m div 10))
           (word_of_int (m + 3 - 12 * (m div 10)))
           (word_of_int (e - (153 * m + 2) div 5 + 1)) 0 0 0)"

section \<open>The table of daylight-saving periods\<close>

record tz_table =
  start_year :: cint
  tz_name :: string
  dst :: "utcperiod list"
  dt :: "utctimespan list"

text \<open>
  The conversion \<open>%+02d\<close> of \<open>sprintf\<close>: a sign always, the decimal digits of the magnitude,
  and zeros between the two up to a field width of 2, the sign counted in.
\<close>

definition digit_char :: "nat \<Rightarrow> char" where
  "digit_char d = ''0123456789'' ! (d mod 10)"

function dec_digits :: "nat \<Rightarrow> string" where
  "dec_digits n = (if n < 10 then [digit_char n] else dec_digits (n div 10) @ [digit_char n])"
  by pat_completeness auto
termination
  by (relation "measure id") auto

definition sprintf_plus_02d :: "cint \<Rightarrow> string" where
  "sprintf_plus_02d n =
     (let sign = (if n <s 0 then CHR ''-'' else CHR ''+'');
          ds = dec_digits (nat \<bar>sint n\<bar>)
      in sign # replicate (2 - (1 + length ds)) CHR ''0'' @ ds)"

text \<open>\<open>tz_table(utctimespan dt)\<close>, with \<open>int(dt / deltahours(1))\<close> the quotient of the two
  counts narrowed to 32 bits.\<close>

definition tz_table_fixed :: "utctimespan \<Rightarrow> tz_table" where
  "tz_table_fixed d =
     \<lparr>start_year = 0,
      tz_name = ''UTC'' @ sprintf_plus_02d (scast (div64 d (deltahours 1))),
      dst = [], dt = []\<rparr>"

definition tz_table_default :: tz_table where
  "tz_table_default = \<lparr>start_year = 0, tz_name = ''UTC+00'', dst = [], dt = []\<rparr>"

definition is_dst :: "tz_table \<Rightarrow> bool" where
  "is_dst tz = (0 < length (dst tz))"

definition name :: "tz_table \<Rightarrow> string" where
  "name tz = tz_name tz"

definition dst_start :: "tz_table \<Rightarrow> cint \<Rightarrow> fault + utctime" where
  "dst_start tz y =
     (if is_dst tz
      then (case vector_at (dst tz) (y - start_year tz) of Inl e \<Rightarrow> Inl e | Inr p \<Rightarrow> Inr (start p))
      else Inr no_utctime)"

definition dst_end :: "tz_table \<Rightarrow> cint \<Rightarrow> fault + utctime" where
  "dst_end tz y =
     (if is_dst tz
      then (case vector_at (dst tz) (y - start_year tz) of Inl e \<Rightarrow> Inl e | Inr p \<Rightarrow> Inr (end_t p))
      else Inr no_utctime)"

definition dst_offset :: "(64 word \<Rightarrow> fault + YMDhms) \<Rightarrow> tz_table \<Rightarrow> utctime \<Rightarrow> fault + utctimespan" where
  "dst_offset fdn tz t =
     (if \<not> is_dst tz then Inr 0
      else (case utc_year fdn t of
        Inl e \<Rightarrow> Inl e
      | Inr y \<Rightarrow>
          (if word_of_nat (length (dst tz)) \<le>s y - start_year tz then Inr 0
           else (case dst_start tz y of
             Inl e \<Rightarrow> Inl e
           | Inr s \<Rightarrow>
               (case dst_end tz y of
                  Inl e \<Rightarrow> Inl e
                | Inr e \<Rightarrow>
                    (if (if s <s e then s \<le>s t \<and> t <s e else t <s e \<or> s \<le>s t)
                     then vector_at (dt tz) (y - start_year tz)
                     else Inr 0))))))"

section \<open>Facts about the 64-bit arithmetic\<close>

lemma sint_range_64: "- (2 ^ 63) \<le> sint (w :: 64 word) \<and> sint w < 2 ^ 63"
  using sint_ge [of w] sint_lt [of w] by simp

lemma sint_word_of_int_64:
  "- (2 ^ 63) \<le> k \<Longrightarrow> k < 2 ^ 63 \<Longrightarrow> sint (word_of_int k :: 64 word) = k"
  by (simp add: sint_sbintrunc' signed_take_bit_int_eq_self)

lemma sint_eq_min_iff: "(sint (x :: utctime) = - (2 ^ 63)) = (x = no_utctime)"
proof -
  have "sint no_utctime = - (2 ^ 63)" by (simp add: no_utctime_def utctime_min_def)
  then show ?thesis by (metis signed_word_eqI)
qed

lemma xor_eq_0_word: "(a XOR b = 0) = (a = (b :: 64 word))"
proof
  assume h: "a XOR b = 0"
  have "b = a XOR (a XOR b)" by (simp only: bit.xor_left_self)
  then show "a = b" using h by simp
qed simp

text \<open>The test \<open>0 < (num ^ den)\<close> of \<open>floor\<close>, for a positive \<open>den\<close>: the signs agree and
  the two values differ.\<close>

lemma xor_pos:
  assumes "0 < sint (d :: 64 word)"
  shows "(0 <s (t XOR d)) = (0 \<le> sint t \<and> t \<noteq> d)"
proof -
  have "(0 <s (t XOR d)) = (0 \<le> sint (t XOR d) \<and> t XOR d \<noteq> 0)"
    by (auto simp: word_sless_alt order_less_le signed_eq_0_iff)
  also have "0 \<le> sint (t XOR d) \<longleftrightarrow> 0 \<le> sint t"
    using assms by (simp add: signed_xor_eq)
  finally show ?thesis by (simp add: xor_eq_0_word)
qed

lemma smod_eq_0_iff: "(a smod b = 0) = (b dvd (a::int))"
proof -
  have "(a smod b = 0) = (a = 0 \<or> \<bar>a\<bar> mod \<bar>b\<bar> = 0)"
    by (simp add: signed_modulo_int_def sgn_0_0)
  also have "\<bar>a\<bar> mod \<bar>b\<bar> = 0 \<longleftrightarrow> b dvd a"
    by (simp add: dvd_eq_mod_eq_0 [symmetric])
  finally show ?thesis by auto
qed

lemma sdiv_nonneg: "0 \<le> a \<Longrightarrow> 0 < b \<Longrightarrow> a sdiv b = a div (b::int)"
  by (simp add: signed_divide_int_def sgn_if)

lemma sdiv_dvd: "b dvd a \<Longrightarrow> a sdiv b = a div (b::int)"
  by (simp add: signed_divide_int_eq_divide_int)

lemma sdiv_neg: "a < 0 \<Longrightarrow> 0 < b \<Longrightarrow> \<not> b dvd a \<Longrightarrow> a sdiv b = a div (b::int) + 1"
  by (simp add: signed_divide_int_eq_divide_int sgn_if)

section \<open>The sentinels\<close>

text \<open>
  Claim C7. \<open>no_utctime\<close> and \<open>min_utctime\<close> are the same instant: negating the smallest
  64-bit count modulo \<open>2\<^sup>6\<^sup>4\<close> gives it back. It is the smallest representable count, and
  \<open>is_valid\<close> is false at this instant and nowhere else.
\<close>

theorem sentinels_none_is_min:
  "no_utctime = min_utctime
   \<and> sint min_utctime = - (2 ^ 63)
   \<and> (\<forall>t :: utctime. sint min_utctime \<le> sint t)
   \<and> (\<forall>t. (\<not> is_valid t) = (t = min_utctime))"
proof -
  have e: "min_utctime = utctime_min"
    unfolding min_utctime_def utctime_min_def by code_simp
  have s: "sint utctime_min = - (2 ^ 63)"
    by (simp add: utctime_min_def)
  have "sint utctime_min \<le> sint t" for t :: utctime
    using sint_range_64 [of t] by (simp add: s)
  then show ?thesis
    by (simp add: e s no_utctime_def is_valid_def)
qed

section \<open>floor\<close>

text \<open>For a positive \<open>dt\<close> the three branches of \<open>floor\<close> compute the same word: \<open>dt\<close>
  times the quotient rounded towards minus infinity, modulo \<open>2\<^sup>6\<^sup>4\<close>.\<close>

lemma floor_eq_word_of_int:
  fixes t d :: "64 word"
  assumes dpos: "0 < sint d"
  shows "floor t d = word_of_int (sint d * (sint t div sint d))"
proof -
  define a b where "a = sint t" and "b = sint d"
  have b: "0 < b" using dpos by (simp add: b_def)
  have d0: "d \<noteq> 0" using dpos by auto
  have rb: "b < 2 ^ 63" using sint_range_64 [of d] by (simp add: b_def)
  show ?thesis
  proof (cases "0 \<le> a \<and> t \<noteq> d")
    case True
    then have x: "0 <s (t XOR d)" using xor_pos [OF dpos, of t] by (simp add: a_def)
    have "floor t d = d * div64 t d" using d0 x by (simp add: floor_def)
    also have "\<dots> = word_of_int b * word_of_int (a sdiv b)"
      by (simp add: div64_def a_def b_def)
    also have "a sdiv b = a div b" using True b by (simp add: sdiv_nonneg)
    finally show ?thesis by (simp add: a_def b_def)
  next
    case False
    then have x: "\<not> 0 <s (t XOR d)" using xor_pos [OF dpos, of t] by (simp add: a_def)
    have rr: "- (2 ^ 63) \<le> a smod b \<and> a smod b < 2 ^ 63"
      using smod_int_range [of b a] b rb by auto
    have r0: "(rem64 t d = 0) = (b dvd a)"
    proof -
      have "(rem64 t d = 0) = (sint (word_of_int (a smod b) :: 64 word) = 0)"
        by (simp add: rem64_def a_def b_def signed_eq_0_iff)
      also have "\<dots> = (a smod b = 0)" using rr by (simp add: sint_word_of_int_64)
      finally show ?thesis by (simp add: smod_eq_0_iff)
    qed
    show ?thesis
    proof (cases "b dvd a")
      case True
      have "floor t d = d * div64 t d" using d0 x r0 True by (simp add: floor_def Let_def)
      also have "\<dots> = word_of_int b * word_of_int (a sdiv b)"
        by (simp add: div64_def a_def b_def)
      also have "a sdiv b = a div b" using True by (simp add: sdiv_dvd)
      finally show ?thesis by (simp add: a_def b_def)
    next
      case nd: False
      then have "a \<noteq> b" by auto
      then have "t \<noteq> d" by (auto simp: a_def b_def)
      then have neg: "a < 0" using False by simp
      have "floor t d = d * (div64 t d - 1)" using d0 x r0 nd by (simp add: floor_def Let_def)
      also have "\<dots> = word_of_int b * word_of_int (a sdiv b - 1)"
        by (simp add: div64_def a_def b_def)
      also have "a sdiv b - 1 = a div b" using neg b nd by (simp add: sdiv_neg)
      finally show ?thesis by (simp add: a_def b_def)
    qed
  qed
qed

text \<open>
  Claim C3, as the code has it. For every instant \<open>t\<close> and every strictly positive timespan
  \<open>dt\<close> such that the greatest multiple of \<open>dt\<close> not exceeding \<open>t\<close> is a 64-bit count (it is
  not below \<open>-2\<^sup>6\<^sup>3\<close>), \<open>floor(t, dt)\<close> is that multiple: it is \<open>dt \<cdot> \<lfloor>t / dt\<rfloor>\<close>, it satisfies
  \<open>floor(t, dt) \<le> t < floor(t, dt) + dt\<close>, it is divisible by \<open>dt\<close>, and no multiple of \<open>dt\<close>
  that is at most \<open>t\<close> exceeds it. For \<open>dt = 0\<close>, \<open>floor(t, dt) = t\<close>. Concretely
  \<open>floor(-1, 1000000) = -1000000\<close> and \<open>floor(-1000000, 1000000) = -1000000\<close>.
\<close>

theorem floor_greatest_multiple:
  fixes t d :: "64 word"
  shows "(0 <s d \<and> - (2 ^ 63) \<le> sint d * (sint t div sint d) \<longrightarrow>
            sint (floor t d) = sint d * (sint t div sint d)
          \<and> sint (floor t d) \<le> sint t \<and> sint t < sint (floor t d) + sint d
          \<and> sint d dvd sint (floor t d)
          \<and> (\<forall>m. m * sint d \<le> sint t \<longrightarrow> m * sint d \<le> sint (floor t d)))
       \<and> floor t 0 = t
       \<and> floor (- 1) 1000000 = - 1000000
       \<and> floor (- 1000000) 1000000 = - 1000000"
proof -
  have c1: "floor (- 1) 1000000 = (- 1000000 :: 64 word)" by code_simp
  have c2: "floor (- 1000000) 1000000 = (- 1000000 :: 64 word)" by code_simp
  have z: "floor t 0 = t" by (simp add: floor_def)
  have main: "sint (floor t d) = sint d * (sint t div sint d)
          \<and> sint (floor t d) \<le> sint t \<and> sint t < sint (floor t d) + sint d
          \<and> sint d dvd sint (floor t d)
          \<and> (\<forall>m. m * sint d \<le> sint t \<longrightarrow> m * sint d \<le> sint (floor t d))"
    if pos: "0 <s d" and rep: "- (2 ^ 63) \<le> sint d * (sint t div sint d)"
  proof -
    define a b where "a = sint t" and "b = sint d"
    have b: "0 < b" using pos by (simp add: b_def word_sless_alt)
    have dm: "a = b * (a div b) + a mod b" by simp
    have m0: "0 \<le> a mod b" "a mod b < b" using b by simp_all
    have le: "b * (a div b) \<le> a" using dm m0 by linarith
    have lt: "a < b * (a div b) + b" using dm m0 by linarith
    have hi: "b * (a div b) < 2 ^ 63" using le sint_range_64 [of t] by (simp add: a_def)
    have lo: "- (2 ^ 63) \<le> b * (a div b)" using rep by (simp only: a_def b_def)
    have "0 < sint d" using b by (simp only: b_def)
    then have "floor t d = word_of_int (b * (a div b))"
      unfolding a_def b_def by (rule floor_eq_word_of_int)
    then have "sint (floor t d) = sint (word_of_int (b * (a div b)) :: 64 word)"
      by (simp only:)
    also have "\<dots> = b * (a div b)" using lo hi by (rule sint_word_of_int_64)
    finally have v: "sint (floor t d) = b * (a div b)" .
    have g: "m * b \<le> b * (a div b)" if "m * b \<le> a" for m
    proof -
      have "(m * b) div b \<le> a div b" using that b by (simp only: zdiv_mono1)
      then have "m \<le> a div b" using b by simp
      then have "m * b \<le> (a div b) * b" using b by (simp only: mult_right_mono less_imp_le)
      then show ?thesis by (simp add: mult.commute)
    qed
    show ?thesis using v le lt g by (simp add: a_def b_def)
  qed
  show ?thesis using c1 c2 z main by blast
qed

theorem floor_greatest_multiple_witness:
  "0 <s (1000000 :: utctimespan)
   \<and> - (2 ^ 63) \<le> sint (1000000 :: utctimespan) * (sint (- 1 :: utctime) div sint (1000000 :: utctimespan))
   \<and> sint (floor (- 1) 1000000) = - 1000000
   \<and> sint (floor (- 1) 1000000) \<le> sint (- 1 :: utctime)
   \<and> sint (- 1 :: utctime) < sint (floor (- 1) 1000000) + sint (1000000 :: utctimespan)"
  using floor_greatest_multiple [of 1000000 "- 1"] by (simp add: word_sless_alt)

text \<open>
  The claim as it is written fails one microsecond above the smallest count: the multiple
  of one second below \<open>-2\<^sup>6\<^sup>3 + 1\<close> is not a 64-bit count, the product wraps around, and the
  result lies above \<open>t\<close>.
\<close>

theorem floor_counterexample:
  "is_valid (- 9223372036854775807) \<and> 0 <s (1000000 :: utctimespan)
   \<and> \<not> sint (floor (- 9223372036854775807) 1000000) \<le> sint (- 9223372036854775807 :: utctime)"
  by code_simp

section \<open>Periods\<close>

text \<open>
  Claim C4, as the code has it. For every period \<open>p = (start, end)\<close> and every instant \<open>t\<close>,
  \<open>p.contains(t)\<close> holds if and only if \<open>start\<close> is not \<open>no_utctime\<close> and
  \<open>start \<le> t < end\<close>; so for every period whose start is not \<open>no_utctime\<close>, every valid
  period among them, \<open>contains(t)\<close> is \<open>start \<le> t < end\<close>, and a period that starts at
  \<open>no_utctime\<close> contains no instant.
\<close>

theorem contains_iff:
  "contains p t = (start p \<noteq> no_utctime \<and> start p \<le>s t \<and> t <s end_t p)"
  unfolding contains_def valid_def is_valid_def word_sle_eq word_sless_alt
  using sint_range_64 [of "start p"] sint_range_64 [of t] sint_range_64 [of "end_t p"]
    sint_eq_min_iff [of t] sint_eq_min_iff [of "start p"] sint_eq_min_iff [of "end_t p"]
  by auto

text \<open>The period from \<open>min_utctime\<close> to one microsecond after the epoch does not contain
  the epoch, although \<open>start \<le> 0 < end\<close>.\<close>

theorem contains_counterexample:
  "\<not> (contains \<lparr>start = min_utctime, end_t = 1\<rparr> 0 = (min_utctime \<le>s 0 \<and> 0 <s (1 :: utctime)))"
  by code_simp

text \<open>
  Claim C5, as the code has it. For all valid periods \<open>a\<close> and \<open>b\<close>, \<open>intersection(a, b)\<close> is
  a valid period if and only if \<open>b.start \<le> a.end\<close> and \<open>a.start \<le> b.end\<close>, which holds when
  \<open>a\<close> and \<open>b\<close> overlap and also when they only touch; a valid result is the period from the
  later start to the earlier end, and a result that is not valid is the default marker
  period with both endpoints \<open>no_utctime\<close>.
\<close>

theorem intersection_valid_iff:
  "valid a \<and> valid b \<longrightarrow>
     (valid (intersection a b) = (start b \<le>s end_t a \<and> start a \<le>s end_t b))
   \<and> (overlaps a b \<longrightarrow> valid (intersection a b))
   \<and> (valid (intersection a b) \<longrightarrow>
         intersection a b = \<lparr>start = max_t (start a) (start b), end_t = min_t (end_t a) (end_t b)\<rparr>)
   \<and> (\<not> valid (intersection a b) \<longrightarrow> intersection a b = utcperiod_default)"
proof -
  have nv: "\<not> valid utcperiod_default" by (simp add: valid_def utcperiod_default_def)
  show ?thesis
    unfolding intersection_def Let_def
    using nv
    by (auto simp: valid_def overlaps_def max_t_def min_t_def word_sle_eq word_sless_alt)
qed

theorem intersection_valid_iff_witness:
  "valid \<lparr>start = 0, end_t = 10\<rparr> \<and> valid \<lparr>start = 5, end_t = 20\<rparr>
   \<and> overlaps \<lparr>start = 0, end_t = 10\<rparr> \<lparr>start = 5, end_t = 20\<rparr>
   \<and> intersection \<lparr>start = 0, end_t = 10\<rparr> \<lparr>start = 5, end_t = 20\<rparr> = \<lparr>start = 5, end_t = 10\<rparr>"
proof -
  have v: "valid \<lparr>start = 0, end_t = 10\<rparr> \<and> valid \<lparr>start = 5, end_t = 20\<rparr>" by code_simp
  have ov: "overlaps \<lparr>start = 0, end_t = 10\<rparr> \<lparr>start = 5, end_t = 20\<rparr>" by code_simp
  have m: "max_t 0 5 = (5 :: utctime)" "min_t 10 20 = (10 :: utctime)" by code_simp+
  show ?thesis
    using intersection_valid_iff [of "\<lparr>start = 0, end_t = 10\<rparr>" "\<lparr>start = 5, end_t = 20\<rparr>"] v ov m
    by (simp add: word_sle_eq)
qed

text \<open>Two valid periods that touch at one instant do not overlap, and their intersection
  is the valid period of length zero at that instant, not the default marker.\<close>

theorem intersection_counterexample:
  "valid \<lparr>start = 0, end_t = 1\<rparr> \<and> valid \<lparr>start = 1, end_t = 2\<rparr>
   \<and> \<not> overlaps \<lparr>start = 0, end_t = 1\<rparr> \<lparr>start = 1, end_t = 2\<rparr>
   \<and> valid (intersection \<lparr>start = 0, end_t = 1\<rparr> \<lparr>start = 1, end_t = 2\<rparr>)
   \<and> intersection \<lparr>start = 0, end_t = 1\<rparr> \<lparr>start = 1, end_t = 2\<rparr> \<noteq> utcperiod_default"
  by code_simp

section \<open>Facts about the 32-bit arithmetic and vector indices\<close>

lemma sint_sub_32:
  fixes a b :: cint
  assumes "- (2 ^ 31) \<le> sint a - sint b" and "sint a - sint b < 2 ^ 31"
  shows "sint (a - b) = sint a - sint b"
proof -
  have "sint (a - b) = signed_take_bit 31 (sint a - sint b)"
    by (simp add: sint_word_ariths)
  also have "\<dots> = sint a - sint b"
    using assms by (simp add: signed_take_bit_int_eq_self)
  finally show ?thesis .
qed

lemma sint_of_nat_32:
  assumes "n < 2 ^ 31"
  shows "sint (word_of_nat n :: cint) = int n"
proof -
  have "sint (word_of_nat n :: cint) = signed_take_bit 31 (int n)"
    using sint_sbintrunc' [where ?'a = 32, of "int n"] by simp
  also have "\<dots> = int n"
    using assms by (simp add: signed_take_bit_int_eq_self)
  finally show ?thesis by simp
qed

lemma mod_of_negative:
  fixes k m :: int
  assumes "- m \<le> k" and "k < 0"
  shows "k mod m = k + m"
proof -
  have "(k + m) mod m = k + m"
    using assms by (intro mod_pos_pos_trivial) simp_all
  then show ?thesis by simp
qed

lemma uint_of_negative:
  fixes w :: "64 word"
  assumes "sint w < 0"
  shows "uint w = sint w + 2 ^ 64"
proof -
  have L: "LENGTH(64) = 64" by simp
  have "uint w = take_bit 64 (sint w)" using uint_sint [of w] by (simp only: L)
  also have "\<dots> = sint w mod 2 ^ 64" by (simp only: take_bit_eq_mod)
  also have "\<dots> = sint w + 2 ^ 64"
    using assms sint_range_64 [of w] by (intro mod_of_negative) simp_all
  finally show ?thesis .
qed

lemma sint_scast_32_64: "sint (scast (i :: cint) :: 64 word) = sint i"
proof -
  have lo: "- (2 ^ 63) \<le> sint i" using sint_ge [of i] by simp
  have hi: "sint i < 2 ^ 63" using sint_lt [of i] by simp
  have L: "LENGTH(64) - Suc 0 = 63" by simp
  have "sint (scast i :: 64 word) = signed_take_bit 63 (sint i)"
    using signed_scast_eq [where ?'c = 64 and ?'a = int, of i] by (simp only: L)
  also have "\<dots> = sint i" using lo hi by (rule signed_take_bit_int_eq_self)
  finally show ?thesis .
qed

text \<open>A negative \<open>int\<close> index reads outside every vector.\<close>

lemma vector_at_negative:
  fixes i :: cint
  assumes "sint i < 0" and "length v < 2 ^ 31"
  shows "vector_at v i = Inl out_of_bounds"
proof -
  have lo: "- (2 ^ 31) \<le> sint i" using sint_ge [of i] by simp
  have "sint (scast i :: 64 word) < 0" using assms(1) by (simp only: sint_scast_32_64)
  then have "uint (scast i :: 64 word) = sint (scast i :: 64 word) + 2 ^ 64"
    by (rule uint_of_negative)
  then have u: "uint (scast i :: 64 word) = sint i + 2 ^ 64"
    by (simp only: sint_scast_32_64)
  have "int (length v) < 2 ^ 31"
    using assms(2) by simp
  then have "\<not> uint (scast i :: 64 word) < int (length v)"
    using lo unfolding u by simp
  then show ?thesis by (simp only: vector_at_def Let_def if_False)
qed

section \<open>The daylight-saving offset\<close>

text \<open>The guard of \<open>dst_offset\<close> covers the years past the end of the table.\<close>

lemma dst_offset_past_table:
  assumes y: "utc_year fdn t = Inr y"
    and past: "int (length (dst tz)) \<le> sint y - sint (start_year tz)"
    and nowrap: "sint y - sint (start_year tz) < 2 ^ 31"
  shows "dst_offset fdn tz t = Inr 0"
proof -
  have "sint (y - start_year tz) = sint y - sint (start_year tz)"
    using past nowrap by (intro sint_sub_32) simp_all
  moreover have "length (dst tz) < 2 ^ 31"
    using past nowrap by simp
  ultimately have "word_of_nat (length (dst tz)) \<le>s y - start_year tz"
    using past by (simp add: word_sle_eq sint_of_nat_32)
  then show ?thesis using y by (simp add: dst_offset_def)
qed

text \<open>No guard covers the years before \<open>start_year\<close>: there \<open>year - start_year\<close> is
  negative, the comparison with \<open>(int) dst.size()\<close> lets it through, and \<open>dst_start\<close> reads
  \<open>dst\<close> at that index.\<close>

lemma dst_offset_before_start_year:
  assumes d: "is_dst tz" and y: "utc_year fdn t = Inr y"
    and before: "sint y < sint (start_year tz)"
    and nowrap: "- (2 ^ 31) \<le> sint y - sint (start_year tz)"
    and len: "length (dst tz) < 2 ^ 31"
  shows "dst_offset fdn tz t = Inl out_of_bounds"
proof -
  have i: "sint (y - start_year tz) = sint y - sint (start_year tz)"
    using before nowrap by (intro sint_sub_32) simp_all
  then have neg: "sint (y - start_year tz) < 0" using before by simp
  have "\<not> word_of_nat (length (dst tz)) \<le>s y - start_year tz"
    using neg len by (simp add: word_sle_eq sint_of_nat_32)
  moreover have "dst_start tz y = Inl out_of_bounds"
    using d neg len by (simp add: dst_start_def vector_at_negative)
  ultimately show ?thesis using d y by (simp add: dst_offset_def)
qed

text \<open>
  Claim C1: for every table and every instant whose UTC year lies outside
  \<open>[start_year, start_year + len(dst))\<close>, years before \<open>start_year\<close> included,
  \<open>dst_offset\<close> returns zero and reads neither \<open>dst\<close> nor \<open>dt\<close> out of range. The code does
  this for the years past the table only. For a table that starts in 1905 and an instant in
  May 1904 it reads \<open>dst[-1]\<close>.
\<close>

theorem dst_offset_before_table:
  "utc_year from_day_number (- 2070000000000000) = Inr 1904
   \<and> dst_offset from_day_number
        \<lparr>start_year = 1905, tz_name = ''CET'',
         dst = [\<lparr>start = - 2043446400000000, end_t = - 2027635200000000\<rparr>],
         dt = [3600000000]\<rparr> (- 2070000000000000) = Inl out_of_bounds"
  by code_simp

section \<open>Day numbers\<close>

text \<open>Where the instant is not negative or is a whole number of seconds, and the count of
  seconds since day number zero is not negative, the two truncating divisions of
  \<open>day_number\<close> are the floor of the spec.\<close>

lemma day_number_agrees:
  assumes whole: "0 \<le> sint t \<or> 1000000 dvd sint t"
    and lower: "- 210866803200 \<le> sint t div 1000000"
  shows "sint (day_number t) = day_number_spec t"
proof -
  define a q where "a = sint t" and "q = sint t div 1000000"
  have ra: "- (2 ^ 63) \<le> a" "a < 2 ^ 63" using sint_range_64 [of t] by (simp_all add: a_def)
  have q1: "q \<le> 9223372036854"
  proof -
    have "a div 1000000 \<le> 9223372036854775807 div 1000000"
      using ra(2) by (intro zdiv_mono1) simp_all
    then show ?thesis by (simp add: q_def a_def)
  qed
  have q0: "- 210866803200 \<le> q" using lower by (simp add: q_def)
  have sd: "a sdiv 1000000 = q"
    using whole by (auto simp: a_def q_def sdiv_nonneg sdiv_dvd)
  have s6: "sint (1000000 :: 64 word) = 1000000" by simp
  have dc: "duration_cast_seconds t = word_of_int q"
    by (simp only: duration_cast_seconds_def div64_def s6 sd [unfolded a_def])
  have day: "duration_cast_seconds DAY = 86400"
    unfolding duration_cast_seconds_def DAY_def by code_simp
  have u: "UnixSecond = word_of_int 210866803200" by (simp add: UnixSecond_def)
  have sum: "UnixSecond + duration_cast_seconds t = word_of_int (210866803200 + q)"
    by (simp only: dc u wi_hom_add)
  have ssum: "sint (UnixSecond + duration_cast_seconds t) = 210866803200 + q"
    unfolding sum using q0 q1 by (intro sint_word_of_int_64) simp_all
  have s8: "sint (86400 :: 64 word) = 86400" by simp
  have nn: "0 \<le> 210866803200 + q" using q0 by simp
  have "day_number t = word_of_int ((210866803200 + q) sdiv 86400)"
    by (simp only: day_number_def day div64_def ssum s8)
  also have "(210866803200 + q) sdiv 86400 = (210866803200 + q) div 86400"
    using nn by (intro sdiv_nonneg) simp_all
  finally have dn: "day_number t = word_of_int ((210866803200 + q) div 86400)" .
  have b0: "0 \<le> (210866803200 + q) div 86400" using nn by (simp add: pos_imp_zdiv_nonneg_iff)
  have dm: "210866803200 + q = 86400 * ((210866803200 + q) div 86400) + (210866803200 + q) mod 86400"
    by simp
  have m0: "0 \<le> (210866803200 + q) mod 86400" by simp
  have b1: "(210866803200 + q) div 86400 \<le> 210866803200 + q"
    using dm m0 b0 by linarith
  have "sint (day_number t) = (210866803200 + q) div 86400"
    unfolding dn using b0 b1 q1 by (intro sint_word_of_int_64) simp_all
  then show ?thesis by (simp add: day_number_spec_def UnixSecond_def q_def)
qed

text \<open>
  Claim C2: for every instant that is not a sentinel, \<open>day_number(t)\<close> is the floor of
  \<open>(UnixSecond + seconds_of(t)) / 86400\<close> with \<open>seconds_of\<close> rounding towards minus
  infinity, also for \<open>t = -1\<close> microsecond. The code rounds the seconds towards zero: one
  microsecond before the epoch it returns 2440588, the day number of 1970-01-01, where the
  floor is 2440587.
\<close>

theorem day_number_before_epoch:
  "is_valid (- 1) \<and> sint (day_number (- 1)) = 2440588 \<and> day_number_spec (- 1) = 2440587"
  by code_simp

section \<open>The name of a fixed-offset table\<close>

lemma dec_digits_nonempty: "dec_digits n \<noteq> []"
  by (subst dec_digits.simps) simp

text \<open>The sign and one digit already fill the field width of 2, so \<open>%+02d\<close> never writes
  a padding zero.\<close>

lemma sprintf_plus_02d_never_pads:
  "sprintf_plus_02d n = (if n <s 0 then CHR ''-'' else CHR ''+'') # dec_digits (nat \<bar>sint n\<bar>)"
proof -
  have "1 \<le> length (dec_digits (nat \<bar>sint n\<bar>))"
    using dec_digits_nonempty [of "nat \<bar>sint n\<bar>"] by (simp add: Suc_le_eq)
  then show ?thesis by (simp add: sprintf_plus_02d_def Let_def)
qed

lemma fixed_offset_single_digit:
  "tz_name (tz_table_fixed (deltahours 1)) = ''UTC+1'' \<and> tz_name (tz_table_fixed 0) = ''UTC+0''
   \<and> tz_name tz_table_default = ''UTC+00''"
  by code_simp

text \<open>
  Claim C6: the table constructed from a fixed offset has an empty \<open>dst\<close> and a name of the
  form \<open>UTC\<close>, a sign and exactly two decimal digits of the whole hours; for five hours and
  thirty minutes the name is \<open>UTC+05\<close>. The code gives the empty \<open>dst\<close> and the sign, and
  one digit for fewer than ten hours: the name is \<open>UTC+5\<close>.
\<close>

theorem fixed_offset_name:
  "deltahours 5 + deltaminutes 30 = 19800000000
   \<and> tz_name (tz_table_fixed (deltahours 5 + deltaminutes 30)) = ''UTC+5''
   \<and> tz_name (tz_table_fixed (deltahours 5 + deltaminutes 30)) \<noteq> ''UTC+05''"
  by code_simp

section \<open>The UTC year of the sentinels\<close>

text \<open>
  Claim C8: \<open>utc_year\<close> signals an error exactly at \<open>no_utctime\<close>, returns 9999 at
  \<open>max_utctime\<close> and -9999 at \<open>min_utctime\<close>. Since \<open>min_utctime\<close> is \<open>no_utctime\<close>, the first
  test of \<open>utc_year\<close> catches it: the code signals the error at \<open>min_utctime\<close> and its
  branch for \<open>min_utctime\<close> is never reached, whatever \<open>from_day_number\<close> is.
\<close>

theorem utc_year_of_min_utctime:
  "utc_year fdn min_utctime = Inl (runtime_error ''year of no_utctime'')
   \<and> utc_year fdn max_utctime = Inr 9999"
proof -
  have e: "min_utctime = no_utctime"
    unfolding min_utctime_def no_utctime_def utctime_min_def by code_simp
  have n: "max_utctime \<noteq> no_utctime"
    unfolding max_utctime_def utctime_max_def no_utctime_def utctime_min_def by code_simp
  show ?thesis by (simp add: utc_year_def e n YEAR_MAX_def)
qed

section \<open>Constructing calendar coordinates\<close>

text \<open>
  Claim C9. Constructing a \<open>YMDhms\<close> or a \<open>YWdhms\<close> signals an error if and only if the
  coordinates are neither all zero nor within the ranges (year in \<open>[-9999, 9999]\<close>, month in
  \<open>[1, 12]\<close>, day in \<open>[1, 31]\<close>, ISO week in \<open>[1, 53]\<close>, week day in \<open>[1, 7]\<close>, hour in
  \<open>[0, 23]\<close>, minute and second in \<open>[0, 59]\<close>); otherwise the construction succeeds and
  stores the coordinates.
\<close>

theorem YMDhms_new_error_iff:
  "((\<exists>e. YMDhms_new Y M D h m s = Inl e) =
      (\<not> ((Y = 0 \<and> M = 0 \<and> D = 0 \<and> h = 0 \<and> m = 0 \<and> s = 0)
          \<or> (sint Y \<in> {- 9999 .. 9999} \<and> sint M \<in> {1 .. 12} \<and> sint D \<in> {1 .. 31}
             \<and> sint h \<in> {0 .. 23} \<and> sint m \<in> {0 .. 59} \<and> sint s \<in> {0 .. 59}))))
   \<and> ((YMDhms_new Y M D h m s = Inr \<lparr>year = Y, month = M, day = D, hour = h, minute = m, second = s\<rparr>) =
      ((Y = 0 \<and> M = 0 \<and> D = 0 \<and> h = 0 \<and> m = 0 \<and> s = 0)
          \<or> (sint Y \<in> {- 9999 .. 9999} \<and> sint M \<in> {1 .. 12} \<and> sint D \<in> {1 .. 31}
             \<and> sint h \<in> {0 .. 23} \<and> sint m \<in> {0 .. 59} \<and> sint s \<in> {0 .. 59})))
   \<and> ((\<exists>e. YWdhms_new Y W wd h m s = Inl e) =
      (\<not> ((Y = 0 \<and> W = 0 \<and> wd = 0 \<and> h = 0 \<and> m = 0 \<and> s = 0)
          \<or> (sint Y \<in> {- 9999 .. 9999} \<and> sint W \<in> {1 .. 53} \<and> sint wd \<in> {1 .. 7}
             \<and> sint h \<in> {0 .. 23} \<and> sint m \<in> {0 .. 59} \<and> sint s \<in> {0 .. 59}))))
   \<and> ((YWdhms_new Y W wd h m s = Inr \<lparr>iso_year = Y, iso_week = W, week_day = wd, w_hour = h, w_minute = m, w_second = s\<rparr>) =
      ((Y = 0 \<and> W = 0 \<and> wd = 0 \<and> h = 0 \<and> m = 0 \<and> s = 0)
          \<or> (sint Y \<in> {- 9999 .. 9999} \<and> sint W \<in> {1 .. 53} \<and> sint wd \<in> {1 .. 7}
             \<and> sint h \<in> {0 .. 23} \<and> sint m \<in> {0 .. 59} \<and> sint s \<in> {0 .. 59})))"
proof -
  have a: "YMDhms_is_valid \<lparr>year = Y, month = M, day = D, hour = h, minute = m, second = s\<rparr> =
      ((Y = 0 \<and> M = 0 \<and> D = 0 \<and> h = 0 \<and> m = 0 \<and> s = 0)
          \<or> (sint Y \<in> {- 9999 .. 9999} \<and> sint M \<in> {1 .. 12} \<and> sint D \<in> {1 .. 31}
             \<and> sint h \<in> {0 .. 23} \<and> sint m \<in> {0 .. 59} \<and> sint s \<in> {0 .. 59}))"
    by (simp add: YMDhms_is_valid_def YMDhms_is_null_def YMDhms_is_valid_coordinates_def
        YEAR_MIN_def YEAR_MAX_def word_sless_alt not_less)
  have b: "YWdhms_is_valid \<lparr>iso_year = Y, iso_week = W, week_day = wd, w_hour = h, w_minute = m, w_second = s\<rparr> =
      ((Y = 0 \<and> W = 0 \<and> wd = 0 \<and> h = 0 \<and> m = 0 \<and> s = 0)
          \<or> (sint Y \<in> {- 9999 .. 9999} \<and> sint W \<in> {1 .. 53} \<and> sint wd \<in> {1 .. 7}
             \<and> sint h \<in> {0 .. 23} \<and> sint m \<in> {0 .. 59} \<and> sint s \<in> {0 .. 59}))"
    by (simp add: YWdhms_is_valid_def YWdhms_is_null_def YWdhms_is_valid_coordinates_def
        YEAR_MIN_def YEAR_MAX_def word_sless_alt not_less)
  have c1: "(\<exists>e. YMDhms_new Y M D h m s = Inl e) =
      (\<not> YMDhms_is_valid \<lparr>year = Y, month = M, day = D, hour = h, minute = m, second = s\<rparr>)"
    by (simp add: YMDhms_new_def Let_def)
  have c2: "(YMDhms_new Y M D h m s = Inr \<lparr>year = Y, month = M, day = D, hour = h, minute = m, second = s\<rparr>) =
      YMDhms_is_valid \<lparr>year = Y, month = M, day = D, hour = h, minute = m, second = s\<rparr>"
    by (simp add: YMDhms_new_def Let_def)
  have c3: "(\<exists>e. YWdhms_new Y W wd h m s = Inl e) =
      (\<not> YWdhms_is_valid \<lparr>iso_year = Y, iso_week = W, week_day = wd, w_hour = h, w_minute = m, w_second = s\<rparr>)"
    by (simp add: YWdhms_new_def Let_def)
  have c4: "(YWdhms_new Y W wd h m s = Inr \<lparr>iso_year = Y, iso_week = W, week_day = wd, w_hour = h, w_minute = m, w_second = s\<rparr>) =
      YWdhms_is_valid \<lparr>iso_year = Y, iso_week = W, week_day = wd, w_hour = h, w_minute = m, w_second = s\<rparr>"
    by (simp add: YWdhms_new_def Let_def)
  show ?thesis
    unfolding c1 c2 c3 c4 a b by (intro conjI refl)
qed

section \<open>Tables without daylight-saving periods\<close>

text \<open>
  Claim C10. For every table whose \<open>dst\<close> is empty, \<open>dst_start(y)\<close> and \<open>dst_end(y)\<close> return
  \<open>no_utctime\<close> for every year \<open>y\<close> and signal nothing, and \<open>is_dst()\<close> is false; the
  default table and every table constructed from a fixed offset have an empty \<open>dst\<close>.
\<close>

theorem dst_less_table:
  "(dst tz = [] \<longrightarrow>
      dst_start tz y = Inr no_utctime \<and> dst_end tz y = Inr no_utctime \<and> \<not> is_dst tz)
   \<and> dst tz_table_default = [] \<and> dst (tz_table_fixed d) = []"
  by (simp add: dst_start_def dst_end_def is_dst_def tz_table_default_def tz_table_fixed_def)

theorem dst_less_table_witness:
  "dst (tz_table_fixed 3600000000) = []
   \<and> dst_start (tz_table_fixed 3600000000) 2016 = Inr no_utctime
   \<and> dst_end (tz_table_fixed 3600000000) 2016 = Inr no_utctime
   \<and> \<not> is_dst (tz_table_fixed 3600000000)"
  using dst_less_table [of "tz_table_fixed 3600000000" 2016 3600000000] by simp

end
